theory Spec2Isabelle
  imports Complex_Main "HOL-Library.Log_Nat"
begin

section \<open>Exceptions\<close>

text \<open>
  The exceptions that the modelled part of \<^verbatim>\<open>qtpy/__init__.py\<close> raises, either
  itself (\<^verbatim>\<open>PythonQtValueError\<close>, \<^verbatim>\<open>QtBindingsNotFoundError\<close>, \<^verbatim>\<open>PythonQtError\<close>) or
  through a built-in operation it calls (\<^verbatim>\<open>OverflowError\<close>, \<^verbatim>\<open>ValueError\<close>,
  \<^verbatim>\<open>TypeError\<close>, \<^verbatim>\<open>IndexError\<close>, \<^verbatim>\<open>KeyError\<close>). \<^verbatim>\<open>PythonQtValueError\<close> carries the value of
  \<^verbatim>\<open>API_\<close> that its message quotes.
\<close>

datatype error =
    PythonQtValueError string
  | QtBindingsNotFoundError
  | PythonQtError
  | OverflowError
  | ValueError
  | TypeError
  | IndexError
  | KeyError

text \<open>
  A step of the resolution has an outcome: the probes of candidate libraries it made, in
  order, and either the exception it raised or its value. \<open>FindSpec m\<close> is a call of
  \<^verbatim>\<open>importlib.util.find_spec(m)\<close>, \<open>Import m\<close> the import of the binding \<open>m\<close>.
\<close>

datatype probe = FindSpec string | Import string

type_synonym 'a outcome = "probe list \<times> (error + 'a)"

definition ret :: "'a \<Rightarrow> 'a outcome" where
  "ret x = ([], Inr x)"

definition raise :: "error \<Rightarrow> 'a outcome" where
  "raise e = ([], Inl e)"

definition bind_e :: "'a outcome \<Rightarrow> ('a \<Rightarrow> 'b outcome) \<Rightarrow> 'b outcome" where
  "bind_e m f =
     (case snd m of
        Inl e \<Rightarrow> (fst m, Inl e)
      | Inr x \<Rightarrow> (fst m @ fst (f x), snd (f x)))"

section \<open>Strings\<close>

text \<open>
  Strings are ASCII texts. \<^verbatim>\<open>str.lower()\<close> maps the letters A to Z to a to z and
  leaves every other character alone.
\<close>

definition lower_char :: "char \<Rightarrow> char" where
  "lower_char c =
     (case map_of (zip ''ABCDEFGHIJKLMNOPQRSTUVWXYZ'' ''abcdefghijklmnopqrstuvwxyz'') c of
        Some d \<Rightarrow> d
      | None \<Rightarrow> c)"

definition lower :: "string \<Rightarrow> string" where
  "lower s = map lower_char s"

section \<open>Binding resolution\<close>

subsection \<open>Constants\<close>

definition API_NAMES :: "(string \<times> string) list" where
  "API_NAMES = [(''pyqt5'', ''PyQt5''), (''pyside2'', ''PySide2''),
                (''pyqt6'', ''PyQt6''), (''pyside6'', ''PySide6'')]"

definition modules :: "string list" where
  "modules = map snd API_NAMES"

definition PYQT5_API :: "string list" where "PYQT5_API = [''pyqt5'']"
definition PYQT6_API :: "string list" where "PYQT6_API = [''pyqt6'']"
definition PYSIDE2_API :: "string list" where "PYSIDE2_API = [''pyside2'']"
definition PYSIDE6_API :: "string list" where "PYSIDE6_API = [''pyside6'']"

subsection \<open>Versions\<close>

text \<open>
  A version is the release tuple that \<^verbatim>\<open>packaging.version.parse\<close> returns for a plain
  dotted version string. Two releases are compared as tuples once their trailing zeros
  are dropped.
\<close>

type_synonym version = "nat list"

fun tuple_lt :: "nat list \<Rightarrow> nat list \<Rightarrow> bool" where
  "tuple_lt [] [] = False"
| "tuple_lt [] (y # ys) = True"
| "tuple_lt (x # xs) [] = False"
| "tuple_lt (x # xs) (y # ys) = (x < y \<or> (x = y \<and> tuple_lt xs ys))"

definition release_key :: "version \<Rightarrow> nat list" where
  "release_key v = rev (dropWhile (\<lambda>n. n = 0) (rev v))"

definition version_lt :: "version \<Rightarrow> version \<Rightarrow> bool" where
  "version_lt a b = tuple_lt (release_key a) (release_key b)"

definition version_ge :: "version \<Rightarrow> version \<Rightarrow> bool" where
  "version_ge a b = (\<not> version_lt a b)"

definition QT5_VERSION_MIN :: version where "QT5_VERSION_MIN = [5, 9, 0]"
definition PYQT5_VERSION_MIN :: version where "PYQT5_VERSION_MIN = [5, 9, 0]"
definition PYSIDE2_VERSION_MIN :: version where "PYSIDE2_VERSION_MIN = [5, 12, 0]"
definition QT6_VERSION_MIN :: version where "QT6_VERSION_MIN = [6, 2, 0]"
definition PYQT6_VERSION_MIN :: version where "PYQT6_VERSION_MIN = [6, 2, 0]"
definition PYSIDE6_VERSION_MIN :: version where "PYSIDE6_VERSION_MIN = [6, 2, 0]"

subsection \<open>The process a resolution runs in\<close>

text \<open>
  What the module reads from the interpreter while it resolves the binding:
  \<^item> \<open>argv0_tail\<close>: the value of \<^verbatim>\<open>os.path.split(sys.argv[0])[1]\<close>;
  \<^item> \<open>sys_modules\<close>: the names present in \<^verbatim>\<open>sys.modules\<close>;
  \<^item> \<open>find_spec\<close>: whether \<^verbatim>\<open>importlib.util.find_spec(module)\<close> is not \<^verbatim>\<open>None\<close>;
  \<^item> \<open>import_binding\<close>: the outcome of the two \<^verbatim>\<open>from <module>... import\<close> lines of
    a binding: \<open>None\<close> for \<^verbatim>\<open>ImportError\<close>, otherwise the version of the binding and
    the version of Qt;
  \<^item> \<open>darwin\<close>: \<^verbatim>\<open>sys.platform == 'darwin'\<close>, and \<open>mac_ver\<close>: the parsed
    \<^verbatim>\<open>platform.mac_ver()[0]\<close>;
  \<^item> \<open>binding_specified\<close>: \<^verbatim>\<open>QT_API in os.environ\<close>.
\<close>

record process =
  argv0_tail :: string
  sys_modules :: "string set"
  find_spec :: "string \<Rightarrow> bool"
  import_binding :: "string \<Rightarrow> (version \<times> version) option"
  darwin :: bool
  mac_ver :: version
  binding_specified :: bool

subsection \<open>Selecting the API name (lines 261 to 283)\<close>

text \<open>The first loop: the first module of the list that is in \<^verbatim>\<open>sys.modules\<close>.\<close>

fun first_loaded :: "string set \<Rightarrow> string list \<Rightarrow> string option" where
  "first_loaded sm [] = None"
| "first_loaded sm (m # ms) = (if m \<in> sm then Some m else first_loaded sm ms)"

text \<open>
  The second loop, in the \<^verbatim>\<open>else\<close> of the first. The \<^verbatim>\<open>else\<close> inside its body
  belongs to the \<^verbatim>\<open>if\<close>, so the body leaves the loop in its first pass: with
  \<^verbatim>\<open>break\<close> when the module has a spec, by raising otherwise. The third argument is
  the value \<^verbatim>\<open>API\<close> has when the loop is entered.
\<close>

fun probe_specs :: "(string \<Rightarrow> bool) \<Rightarrow> string list \<Rightarrow> string \<Rightarrow> string outcome" where
  "probe_specs fs [] api = ret api"
| "probe_specs fs (m # ms) api =
     ([FindSpec m], if fs m then Inr (lower m) else Inl QtBindingsNotFoundError)"

definition select_api :: "process \<Rightarrow> string \<Rightarrow> string outcome" where
  "select_api p API_req =
     (let API = lower API_req;
          API = (if argv0_tail p = ''spyder'' then ''pyqt5'' else API)
      in if API = ''auto''
         then (case first_loaded (sys_modules p) modules of
                 Some m \<Rightarrow> ret (lower m)
               | None \<Rightarrow> probe_specs (find_spec p) modules API)
         else ret API)"

definition check_api :: "string \<Rightarrow> string \<Rightarrow> string outcome" where
  "check_api API_req API =
     (if API \<notin> set (map fst API_NAMES @ map snd API_NAMES)
      then raise (PythonQtValueError API_req)
      else ret API)"

subsection \<open>Importing the selected binding (lines 285 to 368)\<close>

record binding_state =
  API :: string
  QT5 :: bool
  QT6 :: bool
  PYQT5 :: bool
  PYQT6 :: bool
  PYSIDE2 :: bool
  PYSIDE6 :: bool
  PYQT_VERSION :: "version option"
  PYSIDE_VERSION :: "version option"
  QT_VERSION :: "version option"
  env_QT_API :: "string option"

definition initial_state :: "string \<Rightarrow> binding_state" where
  "initial_state a =
     \<lparr>API = a, QT5 = True, QT6 = False, PYQT5 = True, PYQT6 = False, PYSIDE2 = False,
      PYSIDE6 = False, PYQT_VERSION = None, PYSIDE_VERSION = None, QT_VERSION = None,
      env_QT_API = None\<rparr>"

definition macos_gate_pyqt5 :: "process \<Rightarrow> version \<Rightarrow> bool" where
  "macos_gate_pyqt5 p qt =
     (darwin p \<and>
      (if version_lt (mac_ver p) [10, 10] then version_ge qt [5, 9]
       else if version_lt (mac_ver p) [10, 11] then version_ge qt [5, 11]
       else False))"

definition macos_gate_pyside2 :: "process \<Rightarrow> version \<Rightarrow> bool" where
  "macos_gate_pyside2 p qt =
     (darwin p \<and> version_lt (mac_ver p) [10, 11] \<and> version_ge qt [5, 11])"

definition try_pyqt5 :: "process \<Rightarrow> binding_state \<Rightarrow> binding_state outcome" where
  "try_pyqt5 p s =
     (if API s \<in> set PYQT5_API
      then ([Import ''PyQt5''],
            case import_binding p ''PyQt5'' of
              None \<Rightarrow> Inr (s\<lparr>API := ''pyside2''\<rparr>)
            | Some (bv, qv) \<Rightarrow>
                if macos_gate_pyqt5 p qv then Inl PythonQtError
                else Inr (s\<lparr>PYQT_VERSION := Some bv, QT_VERSION := Some qv,
                            QT5 := True, PYQT5 := True, env_QT_API := Some (API s)\<rparr>))
      else ret s)"

definition try_pyside2 :: "process \<Rightarrow> binding_state \<Rightarrow> binding_state outcome" where
  "try_pyside2 p s =
     (if API s \<in> set PYSIDE2_API
      then ([Import ''PySide2''],
            case import_binding p ''PySide2'' of
              None \<Rightarrow> Inr (s\<lparr>API := ''pyqt6''\<rparr>)
            | Some (bv, qv) \<Rightarrow>
                if macos_gate_pyside2 p qv then Inl PythonQtError
                else Inr (s\<lparr>PYSIDE_VERSION := Some bv, QT_VERSION := Some qv,
                            PYQT5 := False, QT5 := True, PYSIDE2 := True,
                            env_QT_API := Some (API s)\<rparr>))
      else ret s)"

definition try_pyqt6 :: "process \<Rightarrow> binding_state \<Rightarrow> binding_state outcome" where
  "try_pyqt6 p s =
     (if API s \<in> set PYQT6_API
      then ([Import ''PyQt6''],
            case import_binding p ''PyQt6'' of
              None \<Rightarrow> Inr (s\<lparr>API := ''pyside6''\<rparr>)
            | Some (bv, qv) \<Rightarrow>
                Inr (s\<lparr>PYQT_VERSION := Some bv, QT_VERSION := Some qv,
                       QT5 := False, PYQT5 := False, QT6 := True, PYQT6 := True,
                       env_QT_API := Some (API s)\<rparr>))
      else ret s)"

definition try_pyside6 :: "process \<Rightarrow> binding_state \<Rightarrow> binding_state outcome" where
  "try_pyside6 p s =
     (if API s \<in> set PYSIDE6_API
      then ([Import ''PySide6''],
            case import_binding p ''PySide6'' of
              None \<Rightarrow> Inl QtBindingsNotFoundError
            | Some (bv, qv) \<Rightarrow>
                Inr (s\<lparr>PYSIDE_VERSION := Some bv, QT_VERSION := Some qv,
                       QT5 := False, PYQT5 := False, QT6 := True, PYSIDE6 := True,
                       env_QT_API := Some (API s)\<rparr>))
      else ret s)"

definition import_selected :: "process \<Rightarrow> string \<Rightarrow> binding_state outcome" where
  "import_selected p a =
     bind_e (try_pyqt5 p (initial_state a)) (\<lambda>s.
     bind_e (try_pyside2 p s) (\<lambda>s.
     bind_e (try_pyqt6 p s) (\<lambda>s.
     try_pyside6 p s)))"

subsection \<open>The whole resolution\<close>

text \<open>
  The result of a resolution that raises nothing: the final state, the display name
  \<^verbatim>\<open>API_NAME\<close> and whether the warning of a fall-back (line 373) was emitted.
\<close>

record resolved =
  state :: binding_state
  API_NAME :: string
  fell_back_warning :: bool

definition resolve_from :: "process \<Rightarrow> string \<Rightarrow> string \<Rightarrow> resolved outcome" where
  "resolve_from p API_req initial_api =
     bind_e (check_api API_req initial_api) (\<lambda>a.
     bind_e (import_selected p a) (\<lambda>s.
       case map_of API_NAMES (API s) of
         None \<Rightarrow> raise KeyError
       | Some n \<Rightarrow>
           ret \<lparr>state = s, API_NAME = n,
                fell_back_warning = (API s \<noteq> initial_api \<and> binding_specified p)\<rparr>))"

definition resolve :: "process \<Rightarrow> string \<Rightarrow> resolved outcome" where
  "resolve p API_req = bind_e (select_api p API_req) (resolve_from p API_req)"

text \<open>
  The macOS check made inside the \<^verbatim>\<open>try\<close> block of a binding, named by the module
  whose import it follows; PyQt6 and PySide6 have none.
\<close>

definition macos_gate :: "process \<Rightarrow> string \<Rightarrow> version \<Rightarrow> bool" where
  "macos_gate p m qv =
     (if m = ''PyQt5'' then macos_gate_pyqt5 p qv
      else if m = ''PySide2'' then macos_gate_pyside2 p qv
      else False)"

subsection \<open>Example processes\<close>

definition pyside2_only :: process where
  "pyside2_only =
     \<lparr>argv0_tail = ''python3'', sys_modules = {''os'', ''sys''},
      find_spec = (\<lambda>m. m = ''PySide2''),
      import_binding = (\<lambda>m. if m = ''PySide2'' then Some ([5, 15, 2], [5, 15, 2]) else None),
      darwin = False, mac_ver = [], binding_specified = False\<rparr>"

definition spyder_process :: process where
  "spyder_process =
     \<lparr>argv0_tail = ''spyder'', sys_modules = {''os'', ''sys'', ''PySide6''},
      find_spec = (\<lambda>m. m = ''PyQt5'' \<or> m = ''PySide6''),
      import_binding = (\<lambda>m. if m = ''PyQt5'' then Some ([5, 15, 9], [5, 15, 2])
                             else if m = ''PySide6'' then Some ([6, 5, 0], [6, 5, 0]) else None),
      darwin = False, mac_ver = [], binding_specified = True\<rparr>"

definition pyside6_loaded :: process where
  "pyside6_loaded = spyder_process\<lparr>argv0_tail := ''python3''\<rparr>"

section \<open>Properties of the binding resolution\<close>

subsection \<open>Auxiliary facts\<close>

lemma lower_char_not_upper_P: "lower_char c \<noteq> CHR ''P''"
  by (simp add: lower_char_def)

lemma lower_not_module: "lower s \<notin> set (map snd API_NAMES)"
proof -
  have "hd (lower s) \<noteq> CHR ''P''" if "s \<noteq> []"
    using that by (cases s) (simp_all add: lower_def lower_char_not_upper_P)
  then show ?thesis
    by (cases s) (auto simp: API_NAMES_def lower_def)
qed

lemma bind_e_never:
  assumes "snd m \<noteq> Inl e" and "\<And>y. snd (f y) \<noteq> Inl e"
  shows "snd (bind_e m f) \<noteq> Inl e"
  using assms by (auto simp: bind_e_def split: sum.splits)

lemma try_pyqt5_no_value_error: "snd (try_pyqt5 p s) \<noteq> Inl (PythonQtValueError x)"
  by (simp add: try_pyqt5_def ret_def split: option.splits)

lemma try_pyside2_no_value_error: "snd (try_pyside2 p s) \<noteq> Inl (PythonQtValueError x)"
  by (simp add: try_pyside2_def ret_def split: option.splits)

lemma try_pyqt6_no_value_error: "snd (try_pyqt6 p s) \<noteq> Inl (PythonQtValueError x)"
  by (simp add: try_pyqt6_def ret_def split: option.splits)

lemma try_pyside6_no_value_error: "snd (try_pyside6 p s) \<noteq> Inl (PythonQtValueError x)"
  by (simp add: try_pyside6_def ret_def split: option.splits)

lemma import_selected_no_value_error:
  "snd (import_selected p a) \<noteq> Inl (PythonQtValueError x)"
  unfolding import_selected_def
  by (intro bind_e_never try_pyqt5_no_value_error try_pyside2_no_value_error
      try_pyqt6_no_value_error try_pyside6_no_value_error)

lemma try_steps_ignore_argv0:
  "try_pyqt5 (p\<lparr>argv0_tail := t\<rparr>) = try_pyqt5 p"
  "try_pyside2 (p\<lparr>argv0_tail := t\<rparr>) = try_pyside2 p"
  "try_pyqt6 (p\<lparr>argv0_tail := t\<rparr>) = try_pyqt6 p"
  "try_pyside6 (p\<lparr>argv0_tail := t\<rparr>) = try_pyside6 p"
  by (simp_all add: fun_eq_iff try_pyqt5_def try_pyside2_def try_pyqt6_def
      try_pyside6_def macos_gate_pyqt5_def macos_gate_pyside2_def
      cong: if_cong option.case_cong)

lemma resolve_from_ignores_argv0:
  "resolve_from (p\<lparr>argv0_tail := t\<rparr>) = resolve_from p"
  by (simp add: fun_eq_iff resolve_from_def import_selected_def try_steps_ignore_argv0
      cong: option.case_cong)

lemma lower_pyqt5: "lower ''pyqt5'' = ''pyqt5''"
  by (simp add: lower_def lower_char_def)

lemma check_api_pyqt5: "check_api y ''pyqt5'' = ret ''pyqt5''"
  by (simp add: check_api_def API_NAMES_def)

lemma resolve_from_pyqt5_request: "resolve_from p y ''pyqt5'' = resolve_from p z ''pyqt5''"
  by (simp add: resolve_from_def check_api_pyqt5)

lemma resolve_from_pyqt5_no_value_error:
  "snd (resolve_from p y ''pyqt5'') \<noteq> Inl (PythonQtValueError x)"
  unfolding resolve_from_def check_api_pyqt5
  by (intro bind_e_never import_selected_no_value_error)
     (simp_all add: ret_def raise_def split: option.splits)

lemma first_loaded_Some: "first_loaded sm ms = Some m \<Longrightarrow> m \<in> sm \<and> m \<in> set ms"
  by (induction ms) (auto split: if_splits)

lemma first_loaded_exists: "sm \<inter> set ms \<noteq> {} \<Longrightarrow> \<exists>m. first_loaded sm ms = Some m"
  by (induction ms) auto

lemma resolve_from_loaded:
  assumes "m \<in> set modules" and "import_binding p m = Some (bv, qv)"
    and "\<not> macos_gate p m qv"
  shows "fst (resolve_from p r (lower m)) = [Import m]
         \<and> map_sum id API_NAME (snd (resolve_from p r (lower m))) = Inr m"
proof -
  consider "m = ''PyQt5''" | "m = ''PySide2''" | "m = ''PyQt6''" | "m = ''PySide6''"
    using assms(1) by (auto simp: modules_def API_NAMES_def)
  then show ?thesis
  proof cases
    case 1
    with assms show ?thesis
      by (simp add: resolve_from_def check_api_def bind_e_def ret_def raise_def
          import_selected_def try_pyqt5_def try_pyside2_def try_pyqt6_def try_pyside6_def
          initial_state_def macos_gate_def PYQT5_API_def PYSIDE2_API_def PYQT6_API_def
          PYSIDE6_API_def API_NAMES_def lower_def lower_char_def)
  next
    case 2
    with assms show ?thesis
      by (simp add: resolve_from_def check_api_def bind_e_def ret_def raise_def
          import_selected_def try_pyqt5_def try_pyside2_def try_pyqt6_def try_pyside6_def
          initial_state_def macos_gate_def PYQT5_API_def PYSIDE2_API_def PYQT6_API_def
          PYSIDE6_API_def API_NAMES_def lower_def lower_char_def)
  next
    case 3
    with assms show ?thesis
      by (simp add: resolve_from_def check_api_def bind_e_def ret_def raise_def
          import_selected_def try_pyqt5_def try_pyside2_def try_pyqt6_def try_pyside6_def
          initial_state_def macos_gate_def PYQT5_API_def PYSIDE2_API_def PYQT6_API_def
          PYSIDE6_API_def API_NAMES_def lower_def lower_char_def)
  next
    case 4
    with assms show ?thesis
      by (simp add: resolve_from_def check_api_def bind_e_def ret_def raise_def
          import_selected_def try_pyqt5_def try_pyside2_def try_pyqt6_def try_pyside6_def
          initial_state_def macos_gate_def PYQT5_API_def PYSIDE2_API_def PYQT6_API_def
          PYSIDE6_API_def API_NAMES_def lower_def lower_char_def)
  qed
qed

subsection \<open>The claims\<close>

text \<open>
  C2 (the code departs from the claim). The claim: with the request \<open>auto\<close> and no
  candidate in \<^verbatim>\<open>sys.modules\<close>, the first importable candidate in the order PyQt5,
  PySide2, PyQt6, PySide6 is selected, and the bindings-not-found error is raised only
  when none of the four is importable. In the process \<open>pyside2_only\<close> nothing is loaded,
  PyQt5 has no spec and PySide2 has one and imports; the resolution probes PyQt5 alone and
  raises \<^verbatim>\<open>QtBindingsNotFoundError\<close>.
\<close>

theorem auto_probe_stops_at_first_candidate:
  "lower ''auto'' = ''auto'' \<and> argv0_tail pyside2_only \<noteq> ''spyder''
   \<and> first_loaded (sys_modules pyside2_only) modules = None
   \<and> \<not> find_spec pyside2_only ''PyQt5'' \<and> find_spec pyside2_only ''PySide2''
   \<and> import_binding pyside2_only ''PySide2'' \<noteq> None
   \<and> resolve pyside2_only ''auto'' = ([FindSpec ''PyQt5''], Inl QtBindingsNotFoundError)"
  by (simp add: pyside2_only_def resolve_def select_api_def bind_e_def modules_def
      API_NAMES_def lower_def lower_char_def ret_def)

text \<open>
  C3, as amended. Unless the tail of \<^verbatim>\<open>sys.argv[0]\<close> is \<open>spyder\<close>: a request that,
  in lower case, is neither \<open>auto\<close> nor one of the four keys of \<open>API_NAMES\<close> makes the
  resolution raise \<^verbatim>\<open>PythonQtValueError\<close>, quoting the request, with no probe of any
  candidate made (no \<^verbatim>\<open>find_spec\<close>, no import) and so no fall-back.
\<close>

theorem invalid_selection_raises_before_any_probe:
  assumes "argv0_tail p \<noteq> ''spyder''"
    and "lower r \<noteq> ''auto''"
    and "lower r \<notin> set (map fst API_NAMES)"
  shows "resolve p r = ([], Inl (PythonQtValueError r))"
  using assms lower_not_module [of r]
  by (simp add: resolve_def select_api_def resolve_from_def check_api_def bind_e_def
      ret_def raise_def)

text \<open>Witness of C3: the request \<open>made_up_binding\<close> in an ordinary process.\<close>

theorem invalid_selection_raises_before_any_probe_witness:
  "resolve pyside2_only ''made_up_binding'' = ([], Inl (PythonQtValueError ''made_up_binding''))"
  using invalid_selection_raises_before_any_probe [of pyside2_only "''made_up_binding''"]
  by (simp add: pyside2_only_def lower_def lower_char_def API_NAMES_def)

text \<open>
  Counterexample to C3 as stated: in a process started as \<open>spyder\<close> the request
  \<open>made_up_binding\<close> raises nothing; PyQt5 is imported and becomes the binding.
\<close>

theorem invalid_selection_accepted_under_spyder:
  "lower ''made_up_binding'' \<noteq> ''auto''
   \<and> lower ''made_up_binding'' \<notin> set (map fst API_NAMES)
   \<and> fst (resolve spyder_process ''made_up_binding'') = [Import ''PyQt5'']
   \<and> map_sum id API_NAME (snd (resolve spyder_process ''made_up_binding'')) = Inr ''PyQt5''"
  by (simp add: spyder_process_def resolve_def select_api_def resolve_from_def check_api_def
      bind_e_def ret_def raise_def import_selected_def try_pyqt5_def try_pyside2_def
      try_pyqt6_def try_pyside6_def initial_state_def macos_gate_pyqt5_def
      PYQT5_API_def PYSIDE2_API_def PYQT6_API_def PYSIDE6_API_def
      API_NAMES_def lower_def lower_char_def)

text \<open>
  C4, as amended. Unless the tail of \<^verbatim>\<open>sys.argv[0]\<close> is \<open>spyder\<close>: when the request
  is \<open>auto\<close> in lower case and some candidate is in \<^verbatim>\<open>sys.modules\<close>, the API selected
  is the first loaded candidate \<open>m\<close> of the priority order, whatever \<^verbatim>\<open>find_spec\<close>
  says of the others and with no probe made; and when the import of \<open>m\<close> succeeds and its
  macOS check passes, \<open>m\<close> is the resolved binding and the only one imported. A single
  loaded candidate is therefore the one selected.
\<close>

theorem loaded_candidate_wins:
  assumes "argv0_tail p \<noteq> ''spyder''" and "lower r = ''auto''"
    and "sys_modules p \<inter> set modules \<noteq> {}"
  shows "\<exists>m. first_loaded (sys_modules p) modules = Some m
             \<and> m \<in> sys_modules p \<and> m \<in> set modules
             \<and> select_api p r = ([], Inr (lower m))
             \<and> (\<forall>bv qv. import_binding p m = Some (bv, qv) \<and> \<not> macos_gate p m qv
                  \<longrightarrow> fst (resolve p r) = [Import m]
                      \<and> map_sum id API_NAME (snd (resolve p r)) = Inr m)"
proof -
  obtain m where m: "first_loaded (sys_modules p) modules = Some m"
    using first_loaded_exists [OF assms(3)] by blast
  have mem: "m \<in> sys_modules p \<and> m \<in> set modules"
    using first_loaded_Some [OF m] .
  have sel: "select_api p r = ([], Inr (lower m))"
    using assms(1,2) m by (simp add: select_api_def ret_def)
  have res: "resolve p r = resolve_from p r (lower m)"
    by (simp add: resolve_def sel bind_e_def)
  show ?thesis
    using m mem sel res resolve_from_loaded [of m p _ _ r] by auto
qed

text \<open>
  Witness of C4: PySide6 is loaded, PyQt5 is importable and not loaded, the request is
  \<open>Auto\<close>.
\<close>

theorem loaded_candidate_wins_witness:
  "select_api pyside6_loaded ''Auto'' = ([], Inr ''pyside6'')
   \<and> fst (resolve pyside6_loaded ''Auto'') = [Import ''PySide6'']
   \<and> map_sum id API_NAME (snd (resolve pyside6_loaded ''Auto'')) = Inr ''PySide6''"
proof -
  have h1: "argv0_tail pyside6_loaded \<noteq> ''spyder''"
    by (simp add: pyside6_loaded_def)
  have h2: "lower ''Auto'' = ''auto''"
    by (simp add: lower_def lower_char_def)
  have fl: "first_loaded (sys_modules pyside6_loaded) modules = Some ''PySide6''"
    by (simp add: pyside6_loaded_def spyder_process_def modules_def API_NAMES_def)
  then have h3: "sys_modules pyside6_loaded \<inter> set modules \<noteq> {}"
    using first_loaded_Some by fastforce
  have imp: "import_binding pyside6_loaded ''PySide6'' = Some ([6, 5, 0], [6, 5, 0])"
    by (simp add: pyside6_loaded_def spyder_process_def)
  have gate: "\<not> macos_gate pyside6_loaded ''PySide6'' [6, 5, 0]"
    by (simp add: macos_gate_def)
  have low: "lower ''PySide6'' = ''pyside6''"
    by (simp add: lower_def lower_char_def)
  show ?thesis
    using loaded_candidate_wins [OF h1 h2 h3] fl imp gate low by auto
qed

text \<open>
  Counterexample to C4 as stated: the same libraries in a process started as \<open>spyder\<close>;
  the request \<open>auto\<close> resolves to PyQt5, which is not loaded, and not to the loaded
  PySide6.
\<close>

theorem loaded_candidate_ignored_under_spyder:
  "lower ''auto'' = ''auto''
   \<and> ''PySide6'' \<in> sys_modules spyder_process \<and> ''PyQt5'' \<notin> sys_modules spyder_process
   \<and> fst (resolve spyder_process ''auto'') = [Import ''PyQt5'']
   \<and> map_sum id API_NAME (snd (resolve spyder_process ''auto'')) = Inr ''PyQt5''"
  by (simp add: spyder_process_def resolve_def select_api_def resolve_from_def check_api_def
      bind_e_def ret_def raise_def import_selected_def try_pyqt5_def try_pyside2_def
      try_pyqt6_def try_pyside6_def initial_state_def macos_gate_pyqt5_def
      PYQT5_API_def PYSIDE2_API_def PYQT6_API_def PYSIDE6_API_def
      API_NAMES_def lower_def lower_char_def)

text \<open>
  C10. When the tail of \<^verbatim>\<open>sys.argv[0]\<close> is \<open>spyder\<close>, the resolution of any request
  \<open>r\<close> is the resolution of the request \<open>pyqt5\<close>, in this process or in one with any
  other \<^verbatim>\<open>argv[0]\<close>, and it never raises \<^verbatim>\<open>PythonQtValueError\<close>.
\<close>

theorem spyder_overrides_request:
  assumes "argv0_tail p = ''spyder''"
  shows "resolve p r = resolve (p\<lparr>argv0_tail := t\<rparr>) ''pyqt5''
         \<and> snd (resolve p r) \<noteq> Inl (PythonQtValueError x)"
proof -
  have sel: "select_api p r = ret ''pyqt5''"
    using assms by (simp add: select_api_def)
  have sel': "select_api (p\<lparr>argv0_tail := t\<rparr>) ''pyqt5'' = ret ''pyqt5''"
    by (simp add: select_api_def lower_pyqt5)
  have res: "resolve p r = resolve_from p r ''pyqt5''"
    by (simp add: resolve_def sel bind_e_def ret_def)
  have res': "resolve (p\<lparr>argv0_tail := t\<rparr>) ''pyqt5'' = resolve_from p ''pyqt5'' ''pyqt5''"
    by (simp add: resolve_def sel' bind_e_def ret_def resolve_from_ignores_argv0)
  show ?thesis
    using resolve_from_pyqt5_request [of p r "''pyqt5''"]
      resolve_from_pyqt5_no_value_error [of p r x]
    by (simp add: res res')
qed

text \<open>Witness of C10: the request \<open>made_up_binding\<close> in a process started as \<open>spyder\<close>.\<close>

theorem spyder_overrides_request_witness:
  "resolve spyder_process ''made_up_binding''
     = resolve (spyder_process\<lparr>argv0_tail := ''python3''\<rparr>) ''pyqt5''
   \<and> snd (resolve spyder_process ''made_up_binding'')
       \<noteq> Inl (PythonQtValueError ''made_up_binding'')"
proof -
  have h: "argv0_tail spyder_process = ''spyder''"
    by (simp add: spyder_process_def)
  show ?thesis by (rule spyder_overrides_request [OF h])
qed

end
